theory Spec2Isabelle
  imports Main
begin

section \<open>Data model (main.go)\<close>

text \<open>
  The wizard is a bubbletea program: a \<open>Model\<close> value, an \<open>Update\<close> function from a
  message to a new model and a command, and commands that the runtime executes and whose
  result comes back as the next message. Go's \<open>int\<close> is modelled as \<open>int\<close>: the only
  arithmetic is \<open>cursor\<close> plus or minus one and \<open>installCount\<close> plus one, far from the
  64-bit bounds. An index outside a slice panics in Go; \<open>Update\<close> returns \<open>Inl\<close> of the
  panic there.
\<close>

datatype PageNumber = Page1View | Page2View | Page3View | Page4View | Page5View

record Dependency =
  name :: string
  selected :: bool
  devDependency :: bool
  installing :: bool
  installed :: bool

record Vulnerabilities =
  Info :: int
  Low :: int
  Moderate :: int
  High :: int
  Critical :: int
  vTotal :: int

record DependencyCounts =
  Prod :: int
  Dev :: int
  Optional :: int
  Peer :: int
  PeerOptional :: int
  dTotal :: int

record npmAuditJSON =
  metaVulnerabilities :: Vulnerabilities
  metaDependencies :: DependencyCounts

text \<open>
  The three widgets of the model (text input, spinner, stopwatch) come from the bubbles
  library. Of the text input only its value is kept; spinner and stopwatch hold no data
  any modelled function reads, and are left out.
\<close>

record Model =
  view :: PageNumber
  dependencies :: "Dependency list"
  audit :: npmAuditJSON
  projectPath :: string
  installCount :: int
  cursor :: int
  error :: string
  textinput :: string

datatype KeyType =
    KeyEsc | KeyCtrlC | KeyCtrlD | KeyEnter | KeySpace | KeyLeft | KeyRight
  | KeyUp | KeyDown | KeyBackspace | KeyRunes string | KeyOther

text \<open>
  \<open>OtherMsg\<close> stands for every message type the \<open>default\<close> branch of \<open>Update\<close>
  receives: spinner and stopwatch ticks, cursor blinks, window sizes.
\<close>

datatype Msg =
    KeyMsg KeyType
  | SetupMessage string
  | ExtraDepsMessage "Dependency list"
  | InstallAllMsg
  | OnInstalledMsg int
  | AuditMsg npmAuditJSON
  | ErrorMsg string
  | OtherMsg

text \<open>
  The commands \<open>Update\<close> returns. A closure over the local model \<open>m\<close> carries that
  model; \<open>StartThenInstallAll\<close> is \<open>tea.Sequence(m.stopwatch.Start(), InstallAllMsg)\<close>,
  \<open>StopThenQuit\<close> is \<open>tea.Sequence(nil, m.stopwatch.Stop(), tea.Quit)\<close>, and
  \<open>WidgetCmd\<close> is whatever the widgets return (blink and tick timers).
\<close>

datatype Cmd =
    CmdNil
  | Quit
  | SetupProject Model
  | ExtraDependencies Model
  | InstallDependency Model int
  | RunAudit Model
  | SendInstallAll
  | StartThenInstallAll
  | StopThenQuit
  | WidgetCmd

datatype Panic = IndexOutOfRange

definition index_ok :: "'a list \<Rightarrow> int \<Rightarrow> bool" where
  "index_ok xs i = (0 \<le> i \<and> i < int (length xs))"

text \<open>The text input widget, reduced to its value with the cursor at the end.\<close>

fun textinput_Update :: "string \<Rightarrow> KeyType \<Rightarrow> string" where
  "textinput_Update v (KeyRunes s) = v @ s"
| "textinput_Update v KeySpace = v @ '' ''"
| "textinput_Update v KeyBackspace = butlast v"
| "textinput_Update v _ = v"

text \<open>
  The scan of the \<open>InstallAllMsg\<close> branch: the index of the first entry that is
  selected, not installed and not installing, counting from \<open>i\<close>.
\<close>

fun firstToInstall :: "Dependency list \<Rightarrow> nat \<Rightarrow> nat option" where
  "firstToInstall [] i = None"
| "firstToInstall (d # ds) i =
     (if selected d \<and> \<not> installed d \<and> \<not> installing d then Some i
      else firstToInstall ds (Suc i))"

definition Update :: "Model \<Rightarrow> Msg \<Rightarrow> Panic + Model \<times> Cmd" where
  "Update m msg =
    (case msg of
      KeyMsg k \<Rightarrow>
        if k = KeyEsc \<or> k = KeyCtrlC \<or> k = KeyCtrlD then Inr (m, Quit)
        else if view m = Page1View then
          (if k = KeyEnter then Inr (m, SetupProject m)
           else Inr (m\<lparr>textinput := textinput_Update (textinput m) k\<rparr>, WidgetCmd))
        else if view m = Page2View then
          (if k = KeySpace \<or> k = KeyLeft \<or> k = KeyRight then
             (if index_ok (dependencies m) (cursor m) then
                (let c = nat (cursor m); d = dependencies m ! c in
                 if selected d
                 then Inr (m\<lparr>dependencies := (dependencies m)[c := d\<lparr>selected := False\<rparr>]\<rparr>, CmdNil)
                 else Inr (m\<lparr>dependencies := (dependencies m)[c := d\<lparr>selected := True\<rparr>]\<rparr>, CmdNil))
              else Inl IndexOutOfRange)
           else if k = KeyUp then
             (if cursor m > 0 then Inr (m\<lparr>cursor := cursor m - 1\<rparr>, CmdNil)
              else Inr (m, CmdNil))
           else if k = KeyDown then
             (if cursor m < int (length (dependencies m)) - 1
              then Inr (m\<lparr>cursor := cursor m + 1\<rparr>, CmdNil)
              else Inr (m, CmdNil))
           else if k = KeyEnter then
             (let m' = m\<lparr>view := Page3View\<rparr> in Inr (m', ExtraDependencies m'))
           else Inr (m, CmdNil))
        else Inr (m, CmdNil)
    | SetupMessage p \<Rightarrow> Inr (m\<lparr>projectPath := p, view := Page2View\<rparr>, CmdNil)
    | ExtraDepsMessage ds \<Rightarrow>
        Inr (m\<lparr>dependencies := dependencies m @ ds\<rparr>, StartThenInstallAll)
    | InstallAllMsg \<Rightarrow>
        (case firstToInstall (dependencies m) 0 of
          Some i \<Rightarrow>
            (let m' = m\<lparr>dependencies :=
                        (dependencies m)[i := (dependencies m ! i)\<lparr>installing := True\<rparr>]\<rparr>
             in Inr (m', InstallDependency m' (int i)))
        | None \<Rightarrow> (let m' = m\<lparr>view := Page4View\<rparr> in Inr (m', RunAudit m')))
    | OnInstalledMsg i \<Rightarrow>
        if index_ok (dependencies m) i then
          Inr (m\<lparr>dependencies :=
                   (dependencies m)[nat i :=
                      (dependencies m ! nat i)\<lparr>installing := False, installed := True\<rparr>],
                 installCount := installCount m + 1\<rparr>, SendInstallAll)
        else Inl IndexOutOfRange
    | AuditMsg a \<Rightarrow> Inr (m\<lparr>audit := a, view := Page5View\<rparr>, StopThenQuit)
    | ErrorMsg e \<Rightarrow> Inr (m\<lparr>error := e\<rparr>, Quit)
    | OtherMsg \<Rightarrow> Inr (m, WidgetCmd))"

definition seed :: "string \<Rightarrow> bool \<Rightarrow> Dependency" where
  "seed n dev = \<lparr>name = n, selected = True, devDependency = dev,
                 installing = False, installed = False\<rparr>"

definition zeroAudit :: npmAuditJSON where
  "zeroAudit = \<lparr>metaVulnerabilities =
                   \<lparr>Info = 0, Low = 0, Moderate = 0, High = 0, Critical = 0, vTotal = 0\<rparr>,
                 metaDependencies =
                   \<lparr>Prod = 0, Dev = 0, Optional = 0, Peer = 0, PeerOptional = 0, dTotal = 0\<rparr>\<rparr>"

definition initialModel :: Model where
  "initialModel =
     \<lparr>view = Page1View,
      dependencies =
        [seed ''typescript'' True, seed ''react'' False, seed ''kysely'' False,
         seed ''esbuild'' True, seed ''tailwindcss'' True, seed ''nodemon'' True,
         seed ''dotenv'' True],
      audit = zeroAudit, projectPath = '''', installCount = 0, cursor = 0,
      error = '''', textinput = ''''\<rparr>"

section \<open>Paths, the file system and external processes\<close>

text \<open>
  Go's \<open>path.Join\<close> and \<open>path.Clean\<close> work on the text of a path: empty elements are
  ignored, the rest is joined with slashes and cleaned (no empty or \<open>.\<close> element, an inner
  \<open>..\<close> removes the element before it, a rooted path never starts with \<open>..\<close>).
\<close>

fun splitSlash :: "string \<Rightarrow> string list" where
  "splitSlash [] = [[]]"
| "splitSlash (c # cs) =
     (if c = CHR ''/'' then [] # splitSlash cs
      else (case splitSlash cs of [] \<Rightarrow> [[c]] | x # xs \<Rightarrow> (c # x) # xs))"

fun joinSlash :: "string list \<Rightarrow> string" where
  "joinSlash [] = []"
| "joinSlash [x] = x"
| "joinSlash (x # y # ys) = x @ ''/'' @ joinSlash (y # ys)"

fun cleanElems :: "bool \<Rightarrow> string list \<Rightarrow> string list \<Rightarrow> string list" where
  "cleanElems rooted acc [] = rev acc"
| "cleanElems rooted acc (e # es) =
     (if e = [] \<or> e = ''.'' then cleanElems rooted acc es
      else if e = ''..'' then
        (case acc of
          [] \<Rightarrow> if rooted then cleanElems rooted [] es else cleanElems rooted [e] es
        | a # as \<Rightarrow>
            if a = ''..'' then cleanElems rooted (e # acc) es else cleanElems rooted as es)
      else cleanElems rooted (e # acc) es)"

definition isRooted :: "string \<Rightarrow> bool" where
  "isRooted p = (case p of [] \<Rightarrow> False | c # _ \<Rightarrow> c = CHR ''/'')"

definition path_Clean :: "string \<Rightarrow> string" where
  "path_Clean p =
     (let es = cleanElems (isRooted p) [] (splitSlash p) in
      if isRooted p then ''/'' @ joinSlash es
      else if es = [] then ''.'' else joinSlash es)"

definition path_Join :: "string list \<Rightarrow> string" where
  "path_Join elems =
     (let es = filter (\<lambda>e. e \<noteq> []) elems in
      if es = [] then [] else path_Clean (joinSlash es))"

text \<open>
  The world outside the program: the working directory of the process, the file system
  as a map from absolute paths (lists of elements) to nodes, and the paths on which an
  operation fails with an I/O error. A relative path is resolved against the working
  directory, as the operating system does.
\<close>

type_synonym bytes = string

datatype Node = Dir | File bytes

record World =
  cwd :: string
  getwdError :: "string option"
  files :: "string list \<Rightarrow> Node option"
  faulty :: "string list \<Rightarrow> bool"

definition resolve :: "World \<Rightarrow> string \<Rightarrow> string list" where
  "resolve w p =
     (if isRooted p then cleanElems True [] (splitSlash p)
      else cleanElems True [] (splitSlash (cwd w) @ splitSlash p))"

definition os_Getwd :: "World \<Rightarrow> string + string" where
  "os_Getwd w = (case getwdError w of Some e \<Rightarrow> Inl e | None \<Rightarrow> Inr (cwd w))"

definition isFile :: "World \<Rightarrow> string list \<Rightarrow> bool" where
  "isFile w cs = (case files w cs of Some (File b) \<Rightarrow> True | _ \<Rightarrow> False)"

definition isDir :: "World \<Rightarrow> string list \<Rightarrow> bool" where
  "isDir w cs = (cs = [] \<or> files w cs = Some Dir)"

text \<open>The directories on the way to a path, the path itself last.\<close>

definition dirsOf :: "string list \<Rightarrow> string list list" where
  "dirsOf cs = map (\<lambda>k. take k cs) [1 ..< Suc (length cs)]"

datatype OpenResult = Opened | ErrNotExist | ErrOther string

definition os_Open :: "World \<Rightarrow> string \<Rightarrow> OpenResult" where
  "os_Open w p =
     (let cs = resolve w p in
      if faulty w cs then ErrOther ''permission denied''
      else if cs = [] then Opened
      else (case files w cs of
             Some n \<Rightarrow> Opened
           | None \<Rightarrow>
               if list_ex (isFile w) (dirsOf (butlast cs)) then ErrOther ''not a directory''
               else ErrNotExist))"

text \<open>
  \<open>os.MkdirAll\<close> creates the missing directories from the top; a failure on the way
  leaves the directories made so far.
\<close>

fun mkdirs :: "World \<Rightarrow> string list list \<Rightarrow> string option \<times> World" where
  "mkdirs w [] = (None, w)"
| "mkdirs w (a # as) =
     (case files w a of
        Some Dir \<Rightarrow> mkdirs w as
      | Some (File b) \<Rightarrow> (Some ''not a directory'', w)
      | None \<Rightarrow>
          if faulty w a then (Some ''permission denied'', w)
          else mkdirs (w\<lparr>files := (files w)(a \<mapsto> Dir)\<rparr>) as)"

definition os_MkdirAll :: "World \<Rightarrow> string \<Rightarrow> string option \<times> World" where
  "os_MkdirAll w p = mkdirs w (dirsOf (resolve w p))"

definition os_WriteFile :: "World \<Rightarrow> string \<Rightarrow> bytes \<Rightarrow> string option \<times> World" where
  "os_WriteFile w p content =
     (let cs = resolve w p in
      if cs = [] \<or> files w cs = Some Dir then (Some ''is a directory'', w)
      else if faulty w cs then (Some ''permission denied'', w)
      else if \<not> isDir w (butlast cs) then (Some ''no such file or directory'', w)
      else (None, w\<lparr>files := (files w)(cs \<mapsto> File content)\<rparr>))"

section \<open>Generated documents and embedded files\<close>

record packageJSON =
  Name :: string
  Author :: string
  Description :: string
  License :: string
  Version :: string
  Type :: string

record CompilerOptions =
  Module :: string
  ModuleResolution :: string
  Target :: string
  ForceConsistentCasingInFileNames :: bool
  AllowUnreachableCode :: bool
  NoErrorTruncation :: bool
  EsModuleInterop :: bool
  IsolatedModules :: bool
  ResolveJSONModule :: bool
  SkipLibCheck :: bool
  Jsx :: string
  Strict :: bool
  NoEmit :: bool
  RootDir :: string
  OutDir :: string

record tsconfigJSON =
  compilerOptions :: CompilerOptions
  Include :: "string list"
  Exclude :: "string list"

definition generateTsconfigJSON :: tsconfigJSON where
  "generateTsconfigJSON =
     \<lparr>compilerOptions =
        \<lparr>Module = ''NodeNext'', ModuleResolution = ''NodeNext'', Target = ''ESNext'',
         ForceConsistentCasingInFileNames = True, AllowUnreachableCode = False,
         NoErrorTruncation = False, EsModuleInterop = True, IsolatedModules = False,
         ResolveJSONModule = False, SkipLibCheck = False, Jsx = '''', Strict = True,
         NoEmit = False, RootDir = '''', OutDir = ''''\<rparr>,
      Include = [''src/**/*.*''],
      Exclude = [''**/node_modules'', ''**/.*/'']\<rparr>"

definition generatePackageJSON :: "string \<Rightarrow> packageJSON" where
  "generatePackageJSON projectName =
     \<lparr>Name = projectName, Author = '''', Description = '''', License = '''',
      Version = ''1.0.0'', Type = ''module''\<rparr>"

datatype JsonData = PackageDoc packageJSON | TsconfigDoc tsconfigJSON

record ExecResult =
  stdoutText :: string
  stderrText :: string
  runError :: "string option"

text \<open>
  What the program takes from outside its own code: the four embedded files (their
  contents are fixed when the program is built), \<open>json.MarshalIndent\<close> and
  \<open>json.Unmarshal\<close> of the standard library, and the external process that
  \<open>exec.Command(...).Run()\<close> starts, which may change the world.
\<close>

record Env =
  TailwindConfigJs :: bytes
  EslintConfigJs :: bytes
  EsbuildJs :: bytes
  IndexTs :: bytes
  marshalIndent :: "JsonData \<Rightarrow> string + bytes"
  unmarshalAudit :: "string \<Rightarrow> string + npmAuditJSON"
  command :: "World \<Rightarrow> string list \<Rightarrow> string \<Rightarrow> ExecResult \<times> World"

record ExecError =
  stderrOf :: string
  stdoutOf :: string
  errorOf :: "string option"

section \<open>The commands (second source file)\<close>

definition execOutput ::
  "Env \<Rightarrow> World \<Rightarrow> string list \<Rightarrow> string \<Rightarrow> (string \<times> ExecError) \<times> World" where
  "execOutput env w args dir =
     (case command env w args dir of
       (r, w') \<Rightarrow>
         (case runError r of
            Some e \<Rightarrow>
              (('''', \<lparr>stderrOf = stderrText r, stdoutOf = stdoutText r, errorOf = Some e\<rparr>), w')
          | None \<Rightarrow>
              ((stdoutText r, \<lparr>stderrOf = '''', stdoutOf = '''', errorOf = None\<rparr>), w')))"

definition copyStaticFile :: "World \<Rightarrow> Model \<Rightarrow> bytes \<Rightarrow> string \<Rightarrow> string option \<times> World" where
  "copyStaticFile w m staticFile fileName =
     os_WriteFile w (path_Join [projectPath m, fileName]) staticFile"

definition getProjectPath :: "World \<Rightarrow> string \<Rightarrow> (string + string) \<times> World" where
  "getProjectPath w projectName =
     (case os_Getwd w of
        Inl e \<Rightarrow> (Inl e, w)
      | Inr d \<Rightarrow>
          (let target = path_Join [d, projectName] in
           if os_Open w target \<noteq> ErrNotExist then
             (Inl (''Unable to create project at '' @ target
                    @ '' directory already exists.''), w)
           else
             (case os_MkdirAll w (path_Join [target, ''src'']) of
                (Some e, w') \<Rightarrow> (Inl e, w')
              | (None, w') \<Rightarrow> (Inr target, w'))))"

definition writeJson ::
  "Env \<Rightarrow> World \<Rightarrow> string \<Rightarrow> string \<Rightarrow> JsonData \<Rightarrow> string option \<times> World" where
  "writeJson env w dir fileName data =
     (case marshalIndent env data of
        Inl e \<Rightarrow> (Some e, w)
      | Inr file \<Rightarrow> os_WriteFile w (path_Join [dir, fileName]) file)"

definition installDependency ::
  "Env \<Rightarrow> World \<Rightarrow> Model \<Rightarrow> int \<Rightarrow> Panic + Msg \<times> World" where
  "installDependency env w m i =
     (if index_ok (dependencies m) i then
        (let d = dependencies m ! nat i;
             args = [''npm'', ''install''] @ (if devDependency d then [''-D''] else [])
                    @ [name d, ''--color=always'']
         in case execOutput env w args (projectPath m) of
              ((out, err), w') \<Rightarrow>
                (case errorOf err of
                   Some e \<Rightarrow> Inr (ErrorMsg e, w')
                 | None \<Rightarrow> Inr (OnInstalledMsg i, w')))
      else Inl IndexOutOfRange)"

definition runAudit :: "Env \<Rightarrow> World \<Rightarrow> Model \<Rightarrow> Msg \<times> World" where
  "runAudit env w m =
     (case execOutput env w [''npm'', ''audit'', ''--json''] (projectPath m) of
        ((data, err), w') \<Rightarrow>
          (case errorOf err of
             Some e \<Rightarrow>
               (case unmarshalAudit env (stdoutOf err) of
                  Inl jsonErr \<Rightarrow> (ErrorMsg e, w')
                | Inr a \<Rightarrow> (AuditMsg a, w'))
           | None \<Rightarrow>
               (case unmarshalAudit env data of
                  Inl jsonErr \<Rightarrow> (ErrorMsg jsonErr, w')
                | Inr a \<Rightarrow> (AuditMsg a, w'))))"

definition setupProject :: "Env \<Rightarrow> World \<Rightarrow> Model \<Rightarrow> Msg \<times> World" where
  "setupProject env w m =
     (case getProjectPath w (textinput m) of
        (Inl e, w0) \<Rightarrow> (ErrorMsg e, w0)
      | (Inr target, w0) \<Rightarrow>
     (case writeJson env w0 target ''package.json''
             (PackageDoc (generatePackageJSON (textinput m))) of
        (Some e, w1) \<Rightarrow> (ErrorMsg e, w1)
      | (None, w1) \<Rightarrow>
     (case writeJson env w1 target ''tsconfig.json'' (TsconfigDoc generateTsconfigJSON) of
        (Some e, w2) \<Rightarrow> (ErrorMsg e, w2)
      | (None, w2) \<Rightarrow>
     (case copyStaticFile w2 m (EslintConfigJs env) ''eslintrc.cjs'' of
        (Some e, w3) \<Rightarrow> (ErrorMsg e, w3)
      | (None, w3) \<Rightarrow>
     (case copyStaticFile w3 m (EslintConfigJs env) ''esbuild.js'' of
        (Some e, w4) \<Rightarrow> (ErrorMsg e, w4)
      | (None, w4) \<Rightarrow> (SetupMessage target, w4))))))"

definition implied :: "string \<Rightarrow> Dependency" where
  "implied n = \<lparr>name = n, selected = True, devDependency = True,
                installing = False, installed = False\<rparr>"

definition reactExtras :: "Dependency list" where
  "reactExtras =
     [implied ''@types/react'', implied ''@types/react-dom'', implied ''eslint-plugin-react'',
      implied ''@typescript-eslint/eslint-plugin'', implied ''@typescript-eslint/parser'']"

text \<open>
  The loop of \<open>extraDependencies\<close> over the entries still to visit, with the list
  \<open>deps\<close> built so far; a failed copy returns at once.
\<close>

fun extraLoop ::
  "Env \<Rightarrow> Model \<Rightarrow> World \<Rightarrow> Dependency list \<Rightarrow> Dependency list
     \<Rightarrow> (string + Dependency list) \<times> World" where
  "extraLoop env m w [] deps = (Inr deps, w)"
| "extraLoop env m w (dep # rest) deps =
     (if \<not> selected dep then extraLoop env m w rest deps
      else
     (case (if name dep = ''typescript''
            then copyStaticFile w m (IndexTs env) ''src/index.ts'' else (None, w)) of
        (Some e, w1) \<Rightarrow> (Inl e, w1)
      | (None, w1) \<Rightarrow>
     (case (if name dep = ''esbuild''
            then copyStaticFile w1 m (EsbuildJs env) ''esbuild.js'' else (None, w1)) of
        (Some e, w2) \<Rightarrow> (Inl e, w2)
      | (None, w2) \<Rightarrow>
     (let deps1 = (if name dep = ''react'' then deps @ reactExtras else deps);
          deps2 = (if name dep = ''kysely'' then deps1 @ [implied ''@types/node''] else deps1)
      in
     (case (if name dep = ''tailwindcss''
            then copyStaticFile w2 m (TailwindConfigJs env) ''tailwind.config.js''
            else (None, w2)) of
        (Some e, w3) \<Rightarrow> (Inl e, w3)
      | (None, w3) \<Rightarrow> extraLoop env m w3 rest deps2)))))"

definition extraDependencies :: "Env \<Rightarrow> World \<Rightarrow> Model \<Rightarrow> Msg \<times> World" where
  "extraDependencies env w m =
     (case extraLoop env m w (dependencies m) [] of
        (Inl e, w') \<Rightarrow> (ErrorMsg e, w')
      | (Inr deps, w') \<Rightarrow> (ExtraDepsMessage deps, w'))"

text \<open>
  The colours \<open>tw\<close> are declared in a file that is not among the sources, and
  \<open>Render\<close> belongs to the lipgloss library: both are parameters. \<open>render c t\<close> is
  \<open>lipgloss.NewStyle().Background(lipgloss.Color(c)).Render(t)\<close>.
\<close>

record Tw =
  purple800 :: string
  red600 :: string
  orange400 :: string
  amber400 :: string
  neutral600 :: string

definition severityStatus ::
  "Tw \<Rightarrow> (string \<Rightarrow> string \<Rightarrow> string) \<Rightarrow> npmAuditJSON \<Rightarrow> string" where
  "severityStatus tw render a =
    (if Critical (metaVulnerabilities a) > 0
       then render (purple800 tw) ''Severity: Critical'' @ '' ''
     else if High (metaVulnerabilities a) > 0
       then render (red600 tw) ''Severity: High'' @ '' ''
     else if Moderate (metaVulnerabilities a) > 0
       then render (orange400 tw) ''Severity: Moderate'' @ '' ''
     else if Low (metaVulnerabilities a) > 0
       then render (amber400 tw) ''Severity: Low'' @ '' ''
     else if Info (metaVulnerabilities a) > 0
       then render (neutral600 tw) ''Severity: Info'' @ '' ''
     else [])"

section \<open>The runtime: event loop and process exit\<close>

text \<open>
  The bubbletea runtime keeps the model and runs every command \<open>Update\<close> returns on
  its own; the command's result is the next message. Keys and widget messages arrive at
  any time. A configuration holds the model, the world, the commands in flight and
  whether the loop still runs. An event is a key, a widget message, the completion of
  the \<open>n\<close>-th command in flight (executed against the world at that moment), or a failure
  of the runtime itself (\<open>Run\<close> returns an error). A sequence delivers its first message
  and leaves the rest in flight; \<open>tea.Quit\<close> ends the loop; a nil command and the
  widgets' timers are not tracked (their messages are \<open>EvOther\<close>).
\<close>

datatype Status = Running | Quitted | Crashed Panic | Failed string

record Config =
  model :: Model
  world :: World
  pending :: "Cmd list"
  status :: Status

datatype Outcome = Send Msg "Cmd list" World | Stop | Crash Panic | Nothing

definition runCmd :: "Env \<Rightarrow> World \<Rightarrow> Cmd \<Rightarrow> Outcome" where
  "runCmd env w c =
     (case c of
        CmdNil \<Rightarrow> Nothing
      | Quit \<Rightarrow> Stop
      | SetupProject m \<Rightarrow> (case setupProject env w m of (msg, w') \<Rightarrow> Send msg [] w')
      | ExtraDependencies m \<Rightarrow>
          (case extraDependencies env w m of (msg, w') \<Rightarrow> Send msg [] w')
      | InstallDependency m i \<Rightarrow>
          (case installDependency env w m i of
             Inl p \<Rightarrow> Crash p
           | Inr (msg, w') \<Rightarrow> Send msg [] w')
      | RunAudit m \<Rightarrow> (case runAudit env w m of (msg, w') \<Rightarrow> Send msg [] w')
      | SendInstallAll \<Rightarrow> Send InstallAllMsg [] w
      | StartThenInstallAll \<Rightarrow> Send OtherMsg [SendInstallAll] w
      | StopThenQuit \<Rightarrow> Send OtherMsg [Quit] w
      | WidgetCmd \<Rightarrow> Send OtherMsg [] w)"

definition deliver :: "Config \<Rightarrow> Msg \<Rightarrow> Config" where
  "deliver c msg =
     (case Update (model c) msg of
        Inl p \<Rightarrow> c\<lparr>status := Crashed p\<rparr>
      | Inr (m', cmd) \<Rightarrow>
          c\<lparr>model := m',
            pending := pending c @ (if cmd = CmdNil \<or> cmd = WidgetCmd then [] else [cmd])\<rparr>)"

datatype Event = EvKey KeyType | EvOther | EvDone nat | EvFail string

definition step :: "Env \<Rightarrow> Config \<Rightarrow> Event \<Rightarrow> Config" where
  "step env c ev =
     (if status c \<noteq> Running then c
      else
        (case ev of
           EvKey k \<Rightarrow> deliver c (KeyMsg k)
         | EvOther \<Rightarrow> deliver c OtherMsg
         | EvFail e \<Rightarrow> c\<lparr>status := Failed e\<rparr>
         | EvDone n \<Rightarrow>
             if n < length (pending c) then
               (let rest = take n (pending c) @ drop (Suc n) (pending c) in
                case runCmd env (world c) (pending c ! n) of
                  Nothing \<Rightarrow> c\<lparr>pending := rest\<rparr>
                | Stop \<Rightarrow> c\<lparr>pending := rest, status := Quitted\<rparr>
                | Crash p \<Rightarrow> c\<lparr>pending := rest, status := Crashed p\<rparr>
                | Send msg next w1 \<Rightarrow> deliver (c\<lparr>world := w1, pending := rest @ next\<rparr>) msg)
             else c))"

definition run :: "Env \<Rightarrow> Config \<Rightarrow> Event list \<Rightarrow> Config" where
  "run env c evs = foldl (step env) c evs"

definition start :: "World \<Rightarrow> Config" where
  "start w = \<lparr>model = initialModel, world = w, pending = [], status = Running\<rparr>"

text \<open>
  \<open>program.Run()\<close> returns once the loop has ended: without an error after
  \<open>tea.Quit\<close>, with the error when the runtime failed. \<open>main\<close> prints an error with
  \<open>fmt.Println\<close>, which writes to the standard output, and exits with status 1;
  otherwise it returns, which is status 0.
\<close>

definition program_Run :: "Env \<Rightarrow> World \<Rightarrow> Event list \<Rightarrow> (Model \<times> string option) option" where
  "program_Run env w evs =
     (let c = run env (start w) evs in
      case status c of
        Quitted \<Rightarrow> Some (model c, None)
      | Failed e \<Rightarrow> Some (model c, Some e)
      | _ \<Rightarrow> None)"

record ProcessExit =
  exitCode :: int
  toStdout :: "string list"
  toStderr :: "string list"

definition main :: "Model \<times> string option \<Rightarrow> ProcessExit" where
  "main r =
     (case snd r of
        Some e \<Rightarrow> \<lparr>exitCode = 1, toStdout = [e], toStderr = []\<rparr>
      | None \<Rightarrow> \<lparr>exitCode = 0, toStdout = [], toStderr = []\<rparr>)"

section \<open>Notions of the specification\<close>

text \<open>The three invariants of the dependency list.\<close>

definition installingOk :: "Model \<Rightarrow> bool" where
  "installingOk m =
     list_all (\<lambda>d. installing d \<longrightarrow> selected d \<and> \<not> installed d) (dependencies m)"

definition singleInstall :: "Model \<Rightarrow> bool" where
  "singleInstall m = (length (filter installing (dependencies m)) \<le> 1)"

definition countOk :: "Model \<Rightarrow> bool" where
  "countOk m = (installCount m = int (length (filter installed (dependencies m))))"

definition dependencyInvariants :: "Model \<Rightarrow> bool" where
  "dependencyInvariants m = (installingOk m \<and> singleInstall m \<and> countOk m)"

text \<open>
  One task at a time: the confirm key is not pressed on the first page while a project
  initialization is in flight.
\<close>

fun isSetup :: "Cmd \<Rightarrow> bool" where
  "isSetup (SetupProject m) = True"
| "isSetup c = False"



text \<open>Feeding messages to \<open>Update\<close> one after the other, the commands dropped.\<close>

fun feed :: "Model \<Rightarrow> Msg list \<Rightarrow> Panic + Model" where
  "feed m [] = Inr m"
| "feed m (x # xs) = (case Update m x of Inl p \<Rightarrow> Inl p | Inr (m', c) \<Rightarrow> feed m' xs)"

definition isToggle :: "KeyType \<Rightarrow> bool" where
  "isToggle k = (k = KeySpace \<or> k = KeyLeft \<or> k = KeyRight)"

text \<open>The indices toggled by a sequence of keys: where the cursor stands at each toggle.\<close>

fun toggledAt :: "Model \<Rightarrow> KeyType list \<Rightarrow> nat list" where
  "toggledAt m [] = []"
| "toggledAt m (k # ks) =
     (if isToggle k then [nat (cursor m)] else [])
     @ (case Update m (KeyMsg k) of Inl p \<Rightarrow> [] | Inr (m', c) \<Rightarrow> toggledAt m' ks)"

definition selectedSet :: "Model \<Rightarrow> nat set" where
  "selectedSet m = {i. i < length (dependencies m) \<and> selected (dependencies m ! i)}"

text \<open>The severity levels in the order of the specification, lowest first.\<close>

datatype Severity = SevInfo | SevLow | SevModerate | SevHigh | SevCritical

fun rank :: "Severity \<Rightarrow> nat" where
  "rank SevInfo = 1"
| "rank SevLow = 2"
| "rank SevModerate = 3"
| "rank SevHigh = 4"
| "rank SevCritical = 5"

fun countOf :: "npmAuditJSON \<Rightarrow> Severity \<Rightarrow> int" where
  "countOf a SevInfo = Info (metaVulnerabilities a)"
| "countOf a SevLow = Low (metaVulnerabilities a)"
| "countOf a SevModerate = Moderate (metaVulnerabilities a)"
| "countOf a SevHigh = High (metaVulnerabilities a)"
| "countOf a SevCritical = Critical (metaVulnerabilities a)"

fun labelOf :: "Tw \<Rightarrow> (string \<Rightarrow> string \<Rightarrow> string) \<Rightarrow> Severity \<Rightarrow> string" where
  "labelOf tw render SevInfo = render (neutral600 tw) ''Severity: Info'' @ '' ''"
| "labelOf tw render SevLow = render (amber400 tw) ''Severity: Low'' @ '' ''"
| "labelOf tw render SevModerate = render (orange400 tw) ''Severity: Moderate'' @ '' ''"
| "labelOf tw render SevHigh = render (red600 tw) ''Severity: High'' @ '' ''"
| "labelOf tw render SevCritical = render (purple800 tw) ''Severity: Critical'' @ '' ''"


section \<open>Example inputs\<close>

definition exampleTw :: Tw where
  "exampleTw = \<lparr>purple800 = ''#6b21a8'', red600 = ''#dc2626'', orange400 = ''#fb923c'',
                 amber400 = ''#fbbf24'', neutral600 = ''#525252''\<rparr>"

definition exampleRender :: "string \<Rightarrow> string \<Rightarrow> string" where
  "exampleRender c t = ''['' @ c @ '']'' @ t"

definition auditDocument :: string where
  \<open>auditDocument = ''{"metadata":{"vulnerabilities":{"info":0,"low":0,"moderate":1,"high":0,"critical":0,"total":1},"dependencies":{"prod":2,"dev":3,"optional":0,"peer":0,"peerOptional":0,"total":5}}}''\<close>

definition auditReport :: npmAuditJSON where
  "auditReport =
     \<lparr>metaVulnerabilities =
        \<lparr>Info = 0, Low = 0, Moderate = 1, High = 0, Critical = 0, vTotal = 1\<rparr>,
      metaDependencies =
        \<lparr>Prod = 2, Dev = 3, Optional = 0, Peer = 0, PeerOptional = 0, dTotal = 5\<rparr>\<rparr>"

definition succeed :: "World \<Rightarrow> string list \<Rightarrow> string \<Rightarrow> ExecResult \<times> World" where
  "succeed w args dir = (\<lparr>stdoutText = [], stderrText = [], runError = None\<rparr>, w)"

definition exampleEnv :: Env where
  "exampleEnv =
     \<lparr>TailwindConfigJs = ''tailwind-config'', EslintConfigJs = ''eslint-config'',
      EsbuildJs = ''esbuild-config'', IndexTs = ''index-ts'',
      marshalIndent = (\<lambda>d. Inr (case d of PackageDoc p \<Rightarrow> ''package '' @ Name p
                                        | TsconfigDoc t \<Rightarrow> ''tsconfig'')),
      unmarshalAudit = (\<lambda>s. if s = auditDocument then Inr auditReport
                             else Inl ''unexpected end of JSON input''),
      command = succeed\<rparr>"

definition exampleWorld :: World where
  "exampleWorld =
     \<lparr>cwd = ''/work'', getwdError = None, files = [[''work''] \<mapsto> Dir],
      faulty = (\<lambda>p. False)\<rparr>"

definition demoWorld :: World where
  "demoWorld = exampleWorld\<lparr>files := (files exampleWorld)([''work'', ''demo''] \<mapsto> Dir)\<rparr>"

definition selKey :: "KeyType \<Rightarrow> bool" where
  "selKey k = (isToggle k \<or> k = KeyUp \<or> k = KeyDown)"

definition selectionPage :: Model where
  "selectionPage = initialModel\<lparr>view := Page2View\<rparr>"

definition highAudit :: npmAuditJSON where
  "highAudit =
     \<lparr>metaVulnerabilities =
        \<lparr>Info = 0, Low = 0, Moderate = 5, High = 1, Critical = 0, vTotal = 6\<rparr>,
      metaDependencies =
        \<lparr>Prod = 2, Dev = 3, Optional = 0, Peer = 0, PeerOptional = 0, dTotal = 5\<rparr>\<rparr>"

definition auditFails :: "World \<Rightarrow> string list \<Rightarrow> string \<Rightarrow> ExecResult \<times> World" where
  "auditFails w args dir =
     (\<lparr>stdoutText = auditDocument, stderrText = [], runError = Some ''exit status 1''\<rparr>, w)"

definition auditSucceeds :: "World \<Rightarrow> string list \<Rightarrow> string \<Rightarrow> ExecResult \<times> World" where
  "auditSucceeds w args dir =
     (\<lparr>stdoutText = auditDocument, stderrText = [], runError = None\<rparr>, w)"

definition tsReactPage :: Model where
  "tsReactPage =
     \<lparr>view = Page3View,
      dependencies =
        [seed ''typescript'' True, seed ''react'' False,
         (seed ''kysely'' False)\<lparr>selected := False\<rparr>,
         (seed ''esbuild'' True)\<lparr>selected := False\<rparr>,
         (seed ''tailwindcss'' True)\<lparr>selected := False\<rparr>,
         (seed ''nodemon'' True)\<lparr>selected := False\<rparr>,
         (seed ''dotenv'' True)\<lparr>selected := False\<rparr>,
         (seed ''@types/react'' True)\<lparr>selected := False\<rparr>],
      audit = zeroAudit, projectPath = ''/work/demo'', installCount = 0, cursor = 0,
      error = [], textinput = ''demo''\<rparr>"

definition projectWorld :: World where
  "projectWorld =
     exampleWorld\<lparr>files := (files exampleWorld)
        ([''work'', ''demo''] \<mapsto> Dir, [''work'', ''demo'', ''src''] \<mapsto> Dir)\<rparr>"

definition entryExists :: "World \<Rightarrow> string \<Rightarrow> bool" where
  "entryExists w p = (resolve w p = [] \<or> files w (resolve w p) \<noteq> None)"

definition conflictRun :: "Event list" where
  "conflictRun = [EvKey (KeyRunes ''demo''), EvKey KeyEnter, EvDone 0, EvDone 0]"

definition conflictMessage :: string where
  "conflictMessage = ''Unable to create project at /work/demo directory already exists.''"

definition noneInstalling :: "Model \<Rightarrow> bool" where
  "noneInstalling m = list_all (\<lambda>d. \<not> installing d) (dependencies m)"





fun isWork :: "Cmd \<Rightarrow> bool" where
  "isWork CmdNil = False"
| "isWork Quit = False"
| "isWork WidgetCmd = False"
| "isWork c = True"

fun cmdOk :: "Model \<Rightarrow> Cmd \<Rightarrow> bool" where
  "cmdOk m (SetupProject m0) = (view m = Page1View \<and> noneInstalling m)"
| "cmdOk m (ExtraDependencies m0) = (view m = Page3View \<and> noneInstalling m)"
| "cmdOk m StartThenInstallAll = (view m = Page3View \<and> noneInstalling m)"
| "cmdOk m SendInstallAll = (view m = Page3View \<and> noneInstalling m)"
| "cmdOk m (InstallDependency m0 i) =
     (view m = Page3View \<and> index_ok (dependencies m) i \<and> installing (dependencies m ! nat i))"
| "cmdOk m (RunAudit m0) = (view m = Page4View)"
| "cmdOk m StopThenQuit = (view m = Page5View)"
| "cmdOk m c = True"

definition earlyPage :: "Model \<Rightarrow> bool" where
  "earlyPage m = (view m = Page1View \<or> view m = Page2View)"

definition wizardOk :: "Model \<Rightarrow> Cmd list \<Rightarrow> bool" where
  "wizardOk m P =
     (dependencyInvariants m \<and> list_all (cmdOk m) P \<and> length (filter isWork P) \<le> 1
      \<and> (filter isWork P = [] \<and> earlyPage m \<longrightarrow> noneInstalling m))"

definition wizardInv :: "Config \<Rightarrow> bool" where
  "wizardInv c = wizardOk (model c) (pending c)"











section \<open>Verified properties\<close>

subsection \<open>Severity classification\<close>

lemma severityStatus_positive:
  assumes p: "0 < countOf a s"
    and h: "\<And>s'. rank s < rank s' \<Longrightarrow> countOf a s' \<le> 0"
  shows "severityStatus tw render a = labelOf tw render s"
proof (cases s)
  case SevInfo
  with h[of SevLow] h[of SevModerate] h[of SevHigh] h[of SevCritical] p
  show ?thesis by (simp add: severityStatus_def)
next
  case SevLow
  with h[of SevModerate] h[of SevHigh] h[of SevCritical] p
  show ?thesis by (simp add: severityStatus_def)
next
  case SevModerate
  with h[of SevHigh] h[of SevCritical] p
  show ?thesis by (simp add: severityStatus_def)
next
  case SevHigh
  with h[of SevCritical] p
  show ?thesis by (simp add: severityStatus_def)
next
  case SevCritical
  with p show ?thesis by (simp add: severityStatus_def)
qed

lemma severityStatus_none:
  assumes h: "\<And>s. countOf a s \<le> 0"
  shows "severityStatus tw render a = []"
  using h[of SevInfo] h[of SevLow] h[of SevModerate] h[of SevHigh] h[of SevCritical]
  by (simp add: severityStatus_def)

text \<open>
  C7. For every audit report (its counts are counts: none is negative), the severity label
  is that of the highest level, in the order critical, high, moderate, low, info, whose
  count is not zero; when every count is zero there is no label. With one high and five
  moderate vulnerabilities the label is the one of High.
\<close>

theorem severityStatus_priority:
  assumes nonneg: "\<forall>s. 0 \<le> countOf a s"
  shows "(\<forall>s. countOf a s \<noteq> 0 \<and> (\<forall>s'. rank s < rank s' \<longrightarrow> countOf a s' = 0)
              \<longrightarrow> severityStatus tw render a = labelOf tw render s)
       \<and> ((\<forall>s. countOf a s = 0) \<longrightarrow> severityStatus tw render a = [])"
proof (intro conjI allI impI)
  fix s
  assume h: "countOf a s \<noteq> 0 \<and> (\<forall>s'. rank s < rank s' \<longrightarrow> countOf a s' = 0)"
  with nonneg have "0 < countOf a s" by (metis order_le_less)
  moreover from h have "\<And>s'. rank s < rank s' \<Longrightarrow> countOf a s' \<le> 0" by simp
  ultimately show "severityStatus tw render a = labelOf tw render s"
    by (rule severityStatus_positive)
next
  assume "\<forall>s. countOf a s = 0"
  then have "\<And>s. countOf a s \<le> 0" by simp
  then show "severityStatus tw render a = []" by (rule severityStatus_none)
qed

theorem severityStatus_priority_witness:
  "severityStatus exampleTw exampleRender highAudit = ''[#dc2626]Severity: High ''
   \<and> severityStatus exampleTw exampleRender zeroAudit = []"
proof -
  have n1: "\<forall>s. 0 \<le> countOf highAudit s"
  proof
    fix s show "0 \<le> countOf highAudit s" by (cases s) (simp_all add: highAudit_def)
  qed
  have n0: "\<forall>s. 0 \<le> countOf zeroAudit s"
  proof
    fix s show "0 \<le> countOf zeroAudit s" by (cases s) (simp_all add: zeroAudit_def)
  qed
  have z: "\<forall>s. countOf zeroAudit s = 0"
  proof
    fix s show "countOf zeroAudit s = 0" by (cases s) (simp_all add: zeroAudit_def)
  qed
  have top: "\<forall>s'. rank SevHigh < rank s' \<longrightarrow> countOf highAudit s' = 0"
  proof (intro allI impI)
    fix s' assume "rank SevHigh < rank s'"
    then show "countOf highAudit s' = 0" by (cases s') (simp_all add: highAudit_def)
  qed
  have h: "countOf highAudit SevHigh \<noteq> 0" by (simp add: highAudit_def)
  from severityStatus_priority[OF n1, of exampleTw exampleRender] h top
  have "severityStatus exampleTw exampleRender highAudit = labelOf exampleTw exampleRender SevHigh"
    by blast
  moreover from severityStatus_priority[OF n0, of exampleTw exampleRender] z
  have "severityStatus exampleTw exampleRender zeroAudit = []" by blast
  ultimately show ?thesis by (simp add: exampleTw_def exampleRender_def)
qed


subsection \<open>Selection page: toggles and cursor\<close>

lemma Update_toggle:
  assumes "view m = Page2View" "isToggle k" "index_ok (dependencies m) (cursor m)"
  shows "Update m (KeyMsg k) =
     Inr (m\<lparr>dependencies := (dependencies m)[nat (cursor m) :=
              (dependencies m ! nat (cursor m))\<lparr>selected := \<not> selected (dependencies m ! nat (cursor m))\<rparr>]\<rparr>, CmdNil)"
  using assms by (auto simp: Update_def isToggle_def Let_def)

lemma Update_up:
  assumes "view m = Page2View"
  shows "Update m (KeyMsg KeyUp) = Inr (if cursor m > 0 then m\<lparr>cursor := cursor m - 1\<rparr> else m, CmdNil)"
  using assms by (simp add: Update_def)

lemma Update_down:
  assumes "view m = Page2View"
  shows "Update m (KeyMsg KeyDown) =
     Inr (if cursor m < int (length (dependencies m)) - 1 then m\<lparr>cursor := cursor m + 1\<rparr> else m, CmdNil)"
  using assms by (simp add: Update_def)

lemma Update_selKey:
  assumes "view m = Page2View" "selKey k" "index_ok (dependencies m) (cursor m)"
  obtains m' where "Update m (KeyMsg k) = Inr (m', CmdNil)" "view m' = Page2View"
    "index_ok (dependencies m') (cursor m')" "length (dependencies m') = length (dependencies m)"
    "\<And>i. i < length (dependencies m) \<Longrightarrow>
       selected (dependencies m' ! i) = (selected (dependencies m ! i) \<noteq> (isToggle k \<and> i = nat (cursor m)))"
proof (cases "isToggle k")
  case True
  show ?thesis
    apply (rule that[OF Update_toggle[OF assms(1) True assms(3)]])
    using assms(1,3) True by (auto simp: index_ok_def nth_list_update)
next
  case False
  with assms(2) have "k = KeyUp \<or> k = KeyDown" by (simp add: selKey_def)
  then show ?thesis
  proof
    assume k: "k = KeyUp"
    show ?thesis
      apply (rule that[OF Update_up[OF assms(1), folded k]])
      using assms(1,3) False by (auto simp: index_ok_def)
  next
    assume k: "k = KeyDown"
    show ?thesis
      apply (rule that[OF Update_down[OF assms(1), folded k]])
      using assms(1,3) False by (auto simp: index_ok_def)
  qed
qed

lemma feed_selKeys:
  assumes "view m = Page2View" "index_ok (dependencies m) (cursor m)" "\<forall>k\<in>set ks. selKey k"
  shows "\<exists>m'. feed m (map KeyMsg ks) = Inr m' \<and> view m' = Page2View
           \<and> index_ok (dependencies m') (cursor m')
           \<and> length (dependencies m') = length (dependencies m)
           \<and> (\<forall>i\<in>set (toggledAt m ks). i < length (dependencies m))
           \<and> (\<forall>i < length (dependencies m).
                 selected (dependencies m' ! i)
                 = (selected (dependencies m ! i) \<noteq> odd (count_list (toggledAt m ks) i)))"
  using assms
proof (induction ks arbitrary: m)
  case Nil
  then show ?case by simp
next
  case (Cons k ks)
  from Cons.prems have sk: "selKey k" and rest: "\<forall>k\<in>set ks. selKey k" by simp_all
  from Update_selKey[OF Cons.prems(1) sk Cons.prems(2)]
  obtain m1 where u: "Update m (KeyMsg k) = Inr (m1, CmdNil)" and v: "view m1 = Page2View"
    and ix: "index_ok (dependencies m1) (cursor m1)"
    and len: "length (dependencies m1) = length (dependencies m)"
    and sel: "\<And>i. i < length (dependencies m) \<Longrightarrow>
       selected (dependencies m1 ! i) = (selected (dependencies m ! i) \<noteq> (isToggle k \<and> i = nat (cursor m)))"
    by blast
  from Cons.IH[OF v ix rest] obtain m' where
    f: "feed m1 (map KeyMsg ks) = Inr m'" and v': "view m' = Page2View"
    and ix': "index_ok (dependencies m') (cursor m')"
    and len': "length (dependencies m') = length (dependencies m1)"
    and bnd': "\<forall>i\<in>set (toggledAt m1 ks). i < length (dependencies m1)"
    and sel': "\<forall>i < length (dependencies m1).
                 selected (dependencies m' ! i)
                 = (selected (dependencies m1 ! i) \<noteq> odd (count_list (toggledAt m1 ks) i))"
    by blast
  have "feed m (map KeyMsg (k # ks)) = Inr m'" using u f by simp
  moreover have "\<forall>i < length (dependencies m).
                 selected (dependencies m' ! i)
                 = (selected (dependencies m ! i) \<noteq> odd (count_list (toggledAt m (k # ks)) i))"
  proof (intro allI impI)
    fix i assume i: "i < length (dependencies m)"
    with sel' len have "selected (dependencies m' ! i)
                 = (selected (dependencies m1 ! i) \<noteq> odd (count_list (toggledAt m1 ks) i))" by simp
    with sel[OF i] u show "selected (dependencies m' ! i)
                 = (selected (dependencies m ! i) \<noteq> odd (count_list (toggledAt m (k # ks)) i))"
      by auto
  qed
  moreover have "\<forall>i\<in>set (toggledAt m (k # ks)). i < length (dependencies m)"
    using bnd' len u Cons.prems(2) by (auto simp: index_ok_def)
  ultimately show ?case using v' ix' len len' by auto
qed


lemma double_toggle:
  assumes "view m = Page2View" "index_ok (dependencies m) (cursor m)" "isToggle k1" "isToggle k2"
  shows "feed m [KeyMsg k1, KeyMsg k2] = Inr m"
proof -
  let ?c = "nat (cursor m)"
  let ?d = "dependencies m ! ?c"
  let ?m1 = "m\<lparr>dependencies := (dependencies m)[?c := ?d\<lparr>selected := \<not> selected ?d\<rparr>]\<rparr>"
  have c: "?c < length (dependencies m)" using assms(2) by (auto simp: index_ok_def)
  have u1: "Update m (KeyMsg k1) = Inr (?m1, CmdNil)"
    by (rule Update_toggle[OF assms(1) assms(3) assms(2)])
  have v1: "view ?m1 = Page2View" using assms(1) by simp
  have i1: "index_ok (dependencies ?m1) (cursor ?m1)" using assms(2) by (simp add: index_ok_def)
  have u2: "Update ?m1 (KeyMsg k2) = Inr (m, CmdNil)"
    unfolding Update_toggle[OF v1 assms(4) i1] using c by simp
  show ?thesis using u1 u2 by simp
qed

text \<open>
  C8. On the dependency selection page, after any finite sequence of toggle keys (space,
  left, right), with the cursor moved by up and down keys in between, the set of selected
  entries is the symmetric difference (exclusive or) of the initial set and the set of
  indices toggled an odd number of times; toggling the same entry twice gives back the
  model unchanged.
\<close>

theorem toggle_xor:
  assumes "view m = Page2View"
    and "index_ok (dependencies m) (cursor m)"
    and "\<forall>k\<in>set ks. isToggle k \<or> k = KeyUp \<or> k = KeyDown"
  shows "(\<exists>m'. feed m (map KeyMsg ks) = Inr m'
            \<and> selectedSet m' =
                (selectedSet m - {i. odd (count_list (toggledAt m ks) i)})
                \<union> ({i. odd (count_list (toggledAt m ks) i)} - selectedSet m))
       \<and> (\<forall>k1 k2. isToggle k1 \<and> isToggle k2 \<longrightarrow> feed m [KeyMsg k1, KeyMsg k2] = Inr m)"
proof (intro conjI allI impI)
  from assms(3) have sk: "\<forall>k\<in>set ks. selKey k" by (simp add: selKey_def)
  from feed_selKeys[OF assms(1,2) sk] obtain m' where
    f: "feed m (map KeyMsg ks) = Inr m'"
    and len: "length (dependencies m') = length (dependencies m)"
    and bnd: "\<forall>i\<in>set (toggledAt m ks). i < length (dependencies m)"
    and sel: "\<forall>i < length (dependencies m).
                 selected (dependencies m' ! i)
                 = (selected (dependencies m ! i) \<noteq> odd (count_list (toggledAt m ks) i))"
    by blast
  have odd_in: "\<And>i. odd (count_list (toggledAt m ks) i) \<Longrightarrow> i < length (dependencies m)"
  proof -
    fix i assume "odd (count_list (toggledAt m ks) i)"
    then have "count_list (toggledAt m ks) i \<noteq> 0" by presburger
    then have "i \<in> set (toggledAt m ks)" by (metis count_list_0_iff)
    with bnd show "i < length (dependencies m)" by blast
  qed
  have "selectedSet m' =
                (selectedSet m - {i. odd (count_list (toggledAt m ks) i)})
                \<union> ({i. odd (count_list (toggledAt m ks) i)} - selectedSet m)"
    unfolding selectedSet_def using len sel odd_in by auto
  with f show "\<exists>m'. feed m (map KeyMsg ks) = Inr m'
            \<and> selectedSet m' =
                (selectedSet m - {i. odd (count_list (toggledAt m ks) i)})
                \<union> ({i. odd (count_list (toggledAt m ks) i)} - selectedSet m)" by blast
next
  fix k1 k2 assume "isToggle k1 \<and> isToggle k2"
  then show "feed m [KeyMsg k1, KeyMsg k2] = Inr m"
    using double_toggle[OF assms(1,2)] by blast
qed

theorem toggle_xor_witness:
  "(\<exists>m'. feed selectionPage (map KeyMsg [KeySpace, KeyDown, KeyRight, KeyUp, KeyLeft]) = Inr m'
         \<and> selectedSet m' = {0, 2, 3, 4, 5, 6})
   \<and> feed selectionPage [KeyMsg KeySpace, KeyMsg KeyLeft] = Inr selectionPage"
proof -
  have v: "view selectionPage = Page2View" by (simp add: selectionPage_def)
  have ix: "index_ok (dependencies selectionPage) (cursor selectionPage)"
    by (simp add: selectionPage_def initialModel_def index_ok_def)
  have ks: "\<forall>k\<in>set [KeySpace, KeyDown, KeyRight, KeyUp, KeyLeft]. isToggle k \<or> k = KeyUp \<or> k = KeyDown"
    by (simp add: isToggle_def)
  have log: "toggledAt selectionPage [KeySpace, KeyDown, KeyRight, KeyUp, KeyLeft] = [0, 1, 0]"
    by (simp add: selectionPage_def initialModel_def isToggle_def Update_def index_ok_def seed_def)
  have S: "selectedSet selectionPage = {0, 1, 2, 3, 4, 5, 6}"
    by (auto simp: selectedSet_def selectionPage_def initialModel_def seed_def nth_Cons' less_Suc_eq)
  have T: "{i. odd (count_list [0, 1, 0::nat] i)} = {1}" by auto
  have D: "({0, 1, 2, 3, 4, 5, 6} - {1::nat}) \<union> ({1} - {0, 1, 2, 3, 4, 5, 6}) = {0, 2, 3, 4, 5, 6}"
    by auto
  from toggle_xor[OF v ix ks] obtain m' where
    f: "feed selectionPage (map KeyMsg [KeySpace, KeyDown, KeyRight, KeyUp, KeyLeft]) = Inr m'"
    and s: "selectedSet m' =
       (selectedSet selectionPage
          - {i. odd (count_list (toggledAt selectionPage [KeySpace, KeyDown, KeyRight, KeyUp, KeyLeft]) i)})
       \<union> ({i. odd (count_list (toggledAt selectionPage [KeySpace, KeyDown, KeyRight, KeyUp, KeyLeft]) i)}
          - selectedSet selectionPage)"
    and d: "\<forall>k1 k2. isToggle k1 \<and> isToggle k2
              \<longrightarrow> feed selectionPage [KeyMsg k1, KeyMsg k2] = Inr selectionPage"
    by blast
  from s have s': "selectedSet m' = {0, 2, 3, 4, 5, 6}" unfolding log S T D .
  have "isToggle KeySpace \<and> isToggle KeyLeft" by (simp add: isToggle_def)
  with d have d': "feed selectionPage [KeyMsg KeySpace, KeyMsg KeyLeft] = Inr selectionPage"
    by blast
  from f s' d' show ?thesis by blast
qed

text \<open>
  C9. On the dependency selection page, over a non-empty list and from a cursor within
  bounds, every sequence of up and down keys leaves the cursor within
  \<open>[0, len(dependencies) - 1]\<close>; up at index 0 and down at the last index leave the
  model as it is (no wraparound).
\<close>

theorem cursor_in_bounds:
  assumes "view m = Page2View"
    and "dependencies m \<noteq> []"
    and "0 \<le> cursor m \<and> cursor m \<le> int (length (dependencies m)) - 1"
    and "\<forall>k\<in>set ks. k = KeyUp \<or> k = KeyDown"
  shows "(\<exists>m'. feed m (map KeyMsg ks) = Inr m'
            \<and> length (dependencies m') = length (dependencies m)
            \<and> 0 \<le> cursor m' \<and> cursor m' \<le> int (length (dependencies m')) - 1)
       \<and> (cursor m = 0 \<longrightarrow> Update m (KeyMsg KeyUp) = Inr (m, CmdNil))
       \<and> (cursor m = int (length (dependencies m)) - 1
            \<longrightarrow> Update m (KeyMsg KeyDown) = Inr (m, CmdNil))"
proof (intro conjI impI)
  from assms(3) have ix: "index_ok (dependencies m) (cursor m)" by (simp add: index_ok_def)
  from assms(4) have sk: "\<forall>k\<in>set ks. selKey k" by (auto simp: selKey_def)
  from feed_selKeys[OF assms(1) ix sk] obtain m' where
    f: "feed m (map KeyMsg ks) = Inr m'"
    and ix': "index_ok (dependencies m') (cursor m')"
    and len: "length (dependencies m') = length (dependencies m)"
    by blast
  from ix' have "0 \<le> cursor m' \<and> cursor m' \<le> int (length (dependencies m')) - 1"
    by (simp add: index_ok_def)
  with f len show "\<exists>m'. feed m (map KeyMsg ks) = Inr m'
            \<and> length (dependencies m') = length (dependencies m)
            \<and> 0 \<le> cursor m' \<and> cursor m' \<le> int (length (dependencies m')) - 1" by blast
next
  assume "cursor m = 0"
  then show "Update m (KeyMsg KeyUp) = Inr (m, CmdNil)"
    using Update_up[OF assms(1)] by simp
next
  assume "cursor m = int (length (dependencies m)) - 1"
  then show "Update m (KeyMsg KeyDown) = Inr (m, CmdNil)"
    using Update_down[OF assms(1)] by simp
qed

theorem cursor_in_bounds_witness:
  "(\<exists>m'. feed selectionPage (map KeyMsg [KeyUp, KeyDown, KeyDown, KeyDown, KeyDown, KeyDown, KeyDown, KeyDown, KeyDown]) = Inr m'
         \<and> length (dependencies m') = 7 \<and> 0 \<le> cursor m' \<and> cursor m' \<le> 6)
   \<and> Update selectionPage (KeyMsg KeyUp) = Inr (selectionPage, CmdNil)
   \<and> Update (selectionPage\<lparr>cursor := 6\<rparr>) (KeyMsg KeyDown) = Inr (selectionPage\<lparr>cursor := 6\<rparr>, CmdNil)"
proof -
  have v: "view selectionPage = Page2View" by (simp add: selectionPage_def)
  have ne: "dependencies selectionPage \<noteq> []" by (simp add: selectionPage_def initialModel_def)
  have len: "length (dependencies selectionPage) = 7" by (simp add: selectionPage_def initialModel_def)
  have c: "cursor selectionPage = 0" by (simp add: selectionPage_def initialModel_def)
  have b: "0 \<le> cursor selectionPage \<and> cursor selectionPage \<le> int (length (dependencies selectionPage)) - 1"
    by (simp add: len c)
  have ks: "\<forall>k\<in>set [KeyUp, KeyDown, KeyDown, KeyDown, KeyDown, KeyDown, KeyDown, KeyDown, KeyDown]. k = KeyUp \<or> k = KeyDown"
    by simp
  have v6: "view (selectionPage\<lparr>cursor := 6\<rparr>) = Page2View" by (simp add: selectionPage_def)
  have ne6: "dependencies (selectionPage\<lparr>cursor := 6\<rparr>) \<noteq> []" by (simp add: selectionPage_def initialModel_def)
  have b6: "0 \<le> cursor (selectionPage\<lparr>cursor := 6\<rparr>) \<and> cursor (selectionPage\<lparr>cursor := 6\<rparr>) \<le> int (length (dependencies (selectionPage\<lparr>cursor := 6\<rparr>))) - 1"
    by (simp add: len)
  from cursor_in_bounds[OF v ne b ks] obtain m' where
    f: "feed selectionPage (map KeyMsg [KeyUp, KeyDown, KeyDown, KeyDown, KeyDown, KeyDown, KeyDown, KeyDown, KeyDown]) = Inr m'"
    and l: "length (dependencies m') = length (dependencies selectionPage)"
    and r: "0 \<le> cursor m' \<and> cursor m' \<le> int (length (dependencies m')) - 1"
    and up: "cursor selectionPage = 0 \<longrightarrow> Update selectionPage (KeyMsg KeyUp) = Inr (selectionPage, CmdNil)"
    by blast
  from l r have r': "length (dependencies m') = 7 \<and> 0 \<le> cursor m' \<and> cursor m' \<le> 6"
    by (simp add: len)
  from up c have up': "Update selectionPage (KeyMsg KeyUp) = Inr (selectionPage, CmdNil)" by blast
  from cursor_in_bounds[OF v6 ne6 b6, of "[]"]
  have "Update (selectionPage\<lparr>cursor := 6\<rparr>) (KeyMsg KeyDown) = Inr (selectionPage\<lparr>cursor := 6\<rparr>, CmdNil)"
    by (simp add: len)
  with f r' up' show ?thesis by blast
qed

subsection \<open>Audit\<close>

text \<open>
  C4. With \<open>(out, err)\<close> the result of the audit command: \<open>runAudit\<close> returns an
  error message exactly when either the command failed and the output kept with the
  failure does not parse as the audit document, or the command succeeded and its output
  does not parse. A text that parses gives the same report, hence the same severity,
  on the failure path as on the success path.
\<close>

theorem runAudit_fatal_iff:
  assumes "execOutput env w [''npm'', ''audit'', ''--json''] (projectPath m) = ((out, err), w')"
  shows "((\<exists>e. runAudit env w m = (ErrorMsg e, w')) \<longleftrightarrow>
            (errorOf err \<noteq> None \<and> isl (unmarshalAudit env (stdoutOf err)))
          \<or> (errorOf err = None \<and> isl (unmarshalAudit env out)))
       \<and> (\<forall>a. (errorOf err \<noteq> None \<and> unmarshalAudit env (stdoutOf err) = Inr a)
                \<or> (errorOf err = None \<and> unmarshalAudit env out = Inr a)
              \<longrightarrow> runAudit env w m = (AuditMsg a, w'))"
  using assms by (auto simp: runAudit_def isl_def split: option.splits sum.splits)

theorem runAudit_fatal_iff_witness:
  "runAudit (exampleEnv\<lparr>command := auditFails\<rparr>) exampleWorld initialModel
     = (AuditMsg auditReport, exampleWorld)
   \<and> runAudit (exampleEnv\<lparr>command := auditSucceeds\<rparr>) exampleWorld initialModel
     = (AuditMsg auditReport, exampleWorld)
   \<and> severityStatus exampleTw exampleRender auditReport = ''[#fb923c]Severity: Moderate ''"
proof -
  have f: "execOutput (exampleEnv\<lparr>command := auditFails\<rparr>) exampleWorld
             [''npm'', ''audit'', ''--json''] (projectPath initialModel)
           = (([], \<lparr>stderrOf = [], stdoutOf = auditDocument, errorOf = Some ''exit status 1''\<rparr>),
              exampleWorld)"
    by (simp add: execOutput_def auditFails_def)
  have s: "execOutput (exampleEnv\<lparr>command := auditSucceeds\<rparr>) exampleWorld
             [''npm'', ''audit'', ''--json''] (projectPath initialModel)
           = ((auditDocument, \<lparr>stderrOf = [], stdoutOf = [], errorOf = None\<rparr>), exampleWorld)"
    by (simp add: execOutput_def auditSucceeds_def)
  have u1: "unmarshalAudit (exampleEnv\<lparr>command := auditFails\<rparr>) auditDocument = Inr auditReport"
    by (simp add: exampleEnv_def)
  have u2: "unmarshalAudit (exampleEnv\<lparr>command := auditSucceeds\<rparr>) auditDocument = Inr auditReport"
    by (simp add: exampleEnv_def)
  have "runAudit (exampleEnv\<lparr>command := auditFails\<rparr>) exampleWorld initialModel
     = (AuditMsg auditReport, exampleWorld)"
    using runAudit_fatal_iff[OF f] u1 by simp
  moreover have "runAudit (exampleEnv\<lparr>command := auditSucceeds\<rparr>) exampleWorld initialModel
     = (AuditMsg auditReport, exampleWorld)"
    using runAudit_fatal_iff[OF s] u2 by simp
  moreover have "severityStatus exampleTw exampleRender auditReport = ''[#fb923c]Severity: Moderate ''"
    by (simp add: severityStatus_def auditReport_def exampleTw_def exampleRender_def)
  ultimately show ?thesis by blast
qed

subsection \<open>Project initialization\<close>

lemma os_Open_existing:
  assumes "entryExists w p"
  shows "os_Open w p \<noteq> ErrNotExist"
  using assms by (auto simp: os_Open_def entryExists_def Let_def)


lemma path_Join_work_demo: "path_Join [''/work'', ''demo''] = ''/work/demo''"
  by (simp add: path_Join_def path_Clean_def isRooted_def)

lemma resolve_work_demo: "resolve demoWorld ''/work/demo'' = [''work'', ''demo'']"
  by (simp add: resolve_def isRooted_def)


subsection \<open>Expansion\<close>

lemma extraLoop_filter:
  "extraLoop env m w ds acc = extraLoop env m w (filter selected ds) acc"
proof (induction ds arbitrary: w acc)
  case Nil
  show ?case by simp
next
  case (Cons d ds)
  show ?case
  proof (cases "selected d")
    case False
    then show ?thesis using Cons.IH by simp
  next
    case True
    then show ?thesis
      by (simp add: Cons.IH[symmetric] Let_def split: prod.splits option.splits)
  qed
qed

lemma two_names:
  assumes "map name (filter selected ds) = [a, b]"
  obtains d1 d2 where "filter selected ds = [d1, d2]" "name d1 = a" "name d2 = b"
    "selected d1" "selected d2"
proof -
  from assms obtain d1 d2 where f: "filter selected ds = [d1, d2]" and n: "name d1 = a" "name d2 = b"
    by (auto simp: map_eq_Cons_conv)
  have "d1 \<in> set (filter selected ds)" "d2 \<in> set (filter selected ds)" using f by simp_all
  then have "selected d1" "selected d2" by simp_all
  with f n show ?thesis by (rule that)
qed

text \<open>
  C5. When the selected entries are exactly typescript and react and the copy of the
  starter source file succeeds, \<open>extraDependencies\<close> returns exactly the five records
  implied by react (typescript adds none), each selected and a dev dependency, and
  \<open>Update\<close> appends them to the list as they are, whatever the list already holds.
\<close>

theorem expander_typescript_react:
  assumes sel: "map name (filter selected (dependencies m)) = [''typescript'', ''react'']
              \<or> map name (filter selected (dependencies m)) = [''react'', ''typescript'']"
    and copy: "copyStaticFile w m (IndexTs env) ''src/index.ts'' = (None, w1)"
  shows "extraDependencies env w m = (ExtraDepsMessage reactExtras, w1)
       \<and> Update m (ExtraDepsMessage reactExtras)
           = Inr (m\<lparr>dependencies := dependencies m @ reactExtras\<rparr>, StartThenInstallAll)
       \<and> length (dependencies m @ reactExtras) = length (dependencies m) + 5
       \<and> map name reactExtras =
           [''@types/react'', ''@types/react-dom'', ''eslint-plugin-react'',
            ''@typescript-eslint/eslint-plugin'', ''@typescript-eslint/parser'']
       \<and> map selected reactExtras = [True, True, True, True, True]
       \<and> map devDependency reactExtras = [True, True, True, True, True]"
proof -
  have loop: "extraLoop env m w (dependencies m) [] = (Inr reactExtras, w1)"
    using sel
  proof
    assume "map name (filter selected (dependencies m)) = [''typescript'', ''react'']"
    then obtain d1 d2 where f: "filter selected (dependencies m) = [d1, d2]"
      and n: "name d1 = ''typescript''" "name d2 = ''react''" and s: "selected d1" "selected d2"
      by (rule two_names)
    show ?thesis
      unfolding extraLoop_filter[of env m w "dependencies m"] f
      using n s copy by simp
  next
    assume "map name (filter selected (dependencies m)) = [''react'', ''typescript'']"
    then obtain d1 d2 where f: "filter selected (dependencies m) = [d1, d2]"
      and n: "name d1 = ''react''" "name d2 = ''typescript''" and s: "selected d1" "selected d2"
      by (rule two_names)
    show ?thesis
      unfolding extraLoop_filter[of env m w "dependencies m"] f
      using n s copy by simp
  qed
  then have "extraDependencies env w m = (ExtraDepsMessage reactExtras, w1)"
    by (simp add: extraDependencies_def)
  moreover have "Update m (ExtraDepsMessage reactExtras)
           = Inr (m\<lparr>dependencies := dependencies m @ reactExtras\<rparr>, StartThenInstallAll)"
    by (simp add: Update_def)
  ultimately show ?thesis by (simp add: reactExtras_def implied_def)
qed

lemma copy_index_ts:
  "copyStaticFile projectWorld tsReactPage (IndexTs exampleEnv) ''src/index.ts''
   = (None, projectWorld\<lparr>files := (files projectWorld)
        ([''work'', ''demo'', ''src'', ''index.ts''] \<mapsto> File ''index-ts'')\<rparr>)"
  by (simp add: copyStaticFile_def os_WriteFile_def tsReactPage_def projectWorld_def
      exampleWorld_def exampleEnv_def path_Join_def path_Clean_def isRooted_def resolve_def
      isDir_def Let_def)

theorem expander_typescript_react_witness:
  "fst (extraDependencies exampleEnv projectWorld tsReactPage) = ExtraDepsMessage reactExtras
   \<and> Update tsReactPage (ExtraDepsMessage reactExtras)
       = Inr (tsReactPage\<lparr>dependencies := dependencies tsReactPage @ reactExtras\<rparr>,
              StartThenInstallAll)
   \<and> length (dependencies tsReactPage @ reactExtras) = 13
   \<and> map name (dependencies tsReactPage @ reactExtras) =
       [''typescript'', ''react'', ''kysely'', ''esbuild'', ''tailwindcss'', ''nodemon'',
        ''dotenv'', ''@types/react'',
        ''@types/react'', ''@types/react-dom'', ''eslint-plugin-react'',
        ''@typescript-eslint/eslint-plugin'', ''@typescript-eslint/parser'']"
proof -
  have sel: "map name (filter selected (dependencies tsReactPage)) = [''typescript'', ''react'']
              \<or> map name (filter selected (dependencies tsReactPage)) = [''react'', ''typescript'']"
    by (simp add: tsReactPage_def seed_def)
  have names: "map name (dependencies tsReactPage) =
     [''typescript'', ''react'', ''kysely'', ''esbuild'', ''tailwindcss'', ''nodemon'',
        ''dotenv'', ''@types/react'']"
    by (simp add: tsReactPage_def seed_def)
  have len: "length (dependencies tsReactPage) = 8" by (simp add: tsReactPage_def)
  show ?thesis
    using expander_typescript_react[OF sel copy_index_ts]
    by (simp add: names len)
qed

subsection \<open>Process exit\<close>

lemma deliver_Quit:
  assumes "status c = Running" "Update (model c) msg = Inr (m', Quit)"
  shows "status (step env (deliver c msg) (EvDone (length (pending c)))) = Quitted"
  using assms by (simp add: deliver_def step_def runCmd_def)

lemma setupProject_existing:
  assumes "getwdError w = None"
    and "entryExists w (path_Join [cwd w, textinput m])"
  shows "setupProject env w m =
           (ErrorMsg (''Unable to create project at '' @ path_Join [cwd w, textinput m]
                      @ '' directory already exists.''), w)"
  using assms(1) os_Open_existing[OF assms(2)]
  by (simp add: setupProject_def getProjectPath_def os_Getwd_def Let_def)

lemma demo_exists: "entryExists demoWorld (path_Join [cwd demoWorld, ''demo''])"
proof -
  have c: "cwd demoWorld = ''/work''" by (simp add: demoWorld_def exampleWorld_def)
  show ?thesis
    unfolding c path_Join_work_demo entryExists_def resolve_work_demo
    by (simp add: demoWorld_def)
qed

lemma setupProject_demo:
  "setupProject exampleEnv demoWorld (initialModel\<lparr>textinput := ''demo''\<rparr>)
   = (ErrorMsg conflictMessage, demoWorld)"
proof -
  have c: "cwd demoWorld = ''/work''" by (simp add: demoWorld_def exampleWorld_def)
  have g: "getwdError demoWorld = None" by (simp add: demoWorld_def exampleWorld_def)
  have t: "textinput (initialModel\<lparr>textinput := ''demo''\<rparr>) = ''demo''" by simp
  have e: "entryExists demoWorld (path_Join [cwd demoWorld, textinput (initialModel\<lparr>textinput := ''demo''\<rparr>)])"
    unfolding t by (rule demo_exists)
  show ?thesis
    unfolding setupProject_existing[OF g e, of exampleEnv] t c path_Join_work_demo conflictMessage_def
    by simp
qed

lemma run_conflict:
  "run exampleEnv (start demoWorld) conflictRun
   = \<lparr>model = initialModel\<lparr>textinput := ''demo'', error := conflictMessage\<rparr>,
      world = demoWorld, pending = [], status = Quitted\<rparr>"
proof -
  let ?m = "initialModel\<lparr>textinput := ''demo''\<rparr>"
  have v: "view initialModel = Page1View" and t: "textinput initialModel = []"
    by (simp_all add: initialModel_def)
  have s1: "step exampleEnv (start demoWorld) (EvKey (KeyRunes ''demo''))
            = \<lparr>model = ?m, world = demoWorld, pending = [], status = Running\<rparr>"
    by (simp add: step_def start_def deliver_def Update_def v t)
  have s2: "step exampleEnv \<lparr>model = ?m, world = demoWorld, pending = [], status = Running\<rparr> (EvKey KeyEnter)
            = \<lparr>model = ?m, world = demoWorld, pending = [SetupProject ?m], status = Running\<rparr>"
    by (simp add: step_def deliver_def Update_def v)
  have s3: "step exampleEnv \<lparr>model = ?m, world = demoWorld, pending = [SetupProject ?m], status = Running\<rparr> (EvDone 0)
            = \<lparr>model = ?m\<lparr>error := conflictMessage\<rparr>, world = demoWorld, pending = [Quit], status = Running\<rparr>"
    by (simp add: step_def runCmd_def setupProject_demo deliver_def Update_def)
  have s4: "step exampleEnv \<lparr>model = ?m\<lparr>error := conflictMessage\<rparr>, world = demoWorld, pending = [Quit], status = Running\<rparr> (EvDone 0)
            = \<lparr>model = ?m\<lparr>error := conflictMessage\<rparr>, world = demoWorld, pending = [], status = Quitted\<rparr>"
    by (simp add: step_def runCmd_def)
  show ?thesis
    unfolding run_def conflictRun_def foldl.simps s1 s2 s3 s4 by simp
qed

text \<open>
  C3, as stated, fails. With the name of an existing directory the initialization returns
  its error message, \<open>Update\<close> stores the text and returns \<open>tea.Quit\<close>, \<open>Run\<close>
  returns without an error and \<open>main\<close> ends with status 0; nothing goes to the standard
  error stream. When \<open>Run\<close> itself fails, the error is printed on the standard output.
\<close>

theorem exit_after_fatal_error_counterexample:
  "(\<exists>m. program_Run exampleEnv demoWorld conflictRun = Some (m, None)
        \<and> error m = conflictMessage
        \<and> exitCode (main (m, None)) = 0
        \<and> toStderr (main (m, None)) = [])
   \<and> exitCode (main (initialModel, Some ''could not open a new TTY'')) = 1
   \<and> toStdout (main (initialModel, Some ''could not open a new TTY'')) = [''could not open a new TTY'']
   \<and> toStderr (main (initialModel, Some ''could not open a new TTY'')) = []"
  by (simp add: program_Run_def run_conflict main_def)

lemma Update_cancel:
  "k = KeyEsc \<or> k = KeyCtrlC \<or> k = KeyCtrlD \<Longrightarrow> Update m (KeyMsg k) = Inr (m, Quit)"
  by (auto simp: Update_def)

text \<open>
  C3, amended. \<open>main\<close> ends with status 0 when \<open>Run\<close> returns no error and with
  status 1, the error printed on the standard output, when it returns one; it never
  writes to the standard error stream. \<open>Run\<close> returns no error exactly when the loop
  ended by \<open>tea.Quit\<close>, and that is how it ends after a cancel key, after the audit
  report (the final summary) and after an error message alike.
\<close>

theorem exit_codes:
  "(\<forall>m. main (m, None) = \<lparr>exitCode = 0, toStdout = [], toStderr = []\<rparr>)
   \<and> (\<forall>m e. main (m, Some e) = \<lparr>exitCode = 1, toStdout = [e], toStderr = []\<rparr>)
   \<and> (\<forall>r. program_Run env w evs = Some r \<longrightarrow>
          (snd r = None \<longleftrightarrow> status (run env (start w) evs) = Quitted)
        \<and> (\<forall>e. snd r = Some e \<longleftrightarrow> status (run env (start w) evs) = Failed e))
   \<and> (\<forall>k. k = KeyEsc \<or> k = KeyCtrlC \<or> k = KeyCtrlD \<longrightarrow>
          Update (model c) (KeyMsg k) = Inr (model c, Quit))
   \<and> Update (model c) (ErrorMsg e) = Inr ((model c)\<lparr>error := e\<rparr>, Quit)
   \<and> Update (model c) (AuditMsg a) = Inr ((model c)\<lparr>audit := a, view := Page5View\<rparr>, StopThenQuit)
   \<and> (status c = Running \<longrightarrow>
        (\<forall>k. k = KeyEsc \<or> k = KeyCtrlC \<or> k = KeyCtrlD \<longrightarrow>
           status (step env (deliver c (KeyMsg k)) (EvDone (length (pending c)))) = Quitted)
        \<and> status (step env (deliver c (ErrorMsg e)) (EvDone (length (pending c)))) = Quitted
        \<and> status (step env (step env (deliver c (AuditMsg a)) (EvDone (length (pending c))))
                    (EvDone (length (pending c)))) = Quitted)"
proof (intro conjI allI impI)
  fix m show "main (m, None) = \<lparr>exitCode = 0, toStdout = [], toStderr = []\<rparr>"
    by (simp add: main_def)
next
  fix m e' show "main (m, Some e') = \<lparr>exitCode = 1, toStdout = [e'], toStderr = []\<rparr>"
    by (simp add: main_def)
next
  fix r assume "program_Run env w evs = Some r"
  then show "(snd r = None) = (status (run env (start w) evs) = Quitted)"
    by (auto simp: program_Run_def Let_def split: Status.splits)
next
  fix r e' assume "program_Run env w evs = Some r"
  then show "(snd r = Some e') = (status (run env (start w) evs) = Failed e')"
    by (auto simp: program_Run_def Let_def split: Status.splits)
next
  fix k assume "k = KeyEsc \<or> k = KeyCtrlC \<or> k = KeyCtrlD"
  then show "Update (model c) (KeyMsg k) = Inr (model c, Quit)" by (rule Update_cancel)
next
  show "Update (model c) (ErrorMsg e) = Inr ((model c)\<lparr>error := e\<rparr>, Quit)"
    by (simp add: Update_def)
next
  show "Update (model c) (AuditMsg a) = Inr ((model c)\<lparr>audit := a, view := Page5View\<rparr>, StopThenQuit)"
    by (simp add: Update_def)
next
  fix k assume r: "status c = Running" and k: "k = KeyEsc \<or> k = KeyCtrlC \<or> k = KeyCtrlD"
  show "status (step env (deliver c (KeyMsg k)) (EvDone (length (pending c)))) = Quitted"
    using deliver_Quit[OF r Update_cancel[OF k]] by simp
next
  assume r: "status c = Running"
  have "Update (model c) (ErrorMsg e) = Inr ((model c)\<lparr>error := e\<rparr>, Quit)"
    by (simp add: Update_def)
  from deliver_Quit[OF r this]
  show "status (step env (deliver c (ErrorMsg e)) (EvDone (length (pending c)))) = Quitted"
    by simp
next
  assume r: "status c = Running"
  then show "status (step env (step env (deliver c (AuditMsg a)) (EvDone (length (pending c))))
                    (EvDone (length (pending c)))) = Quitted"
    by (simp add: deliver_def step_def runCmd_def Update_def)
qed

theorem exit_codes_witness:
  "main (initialModel, None) = \<lparr>exitCode = 0, toStdout = [], toStderr = []\<rparr>
   \<and> status (step exampleEnv (deliver (start exampleWorld) (KeyMsg KeyEsc)) (EvDone 0)) = Quitted
   \<and> status (step exampleEnv (deliver (start exampleWorld) (ErrorMsg ''exit status 1'')) (EvDone 0))
       = Quitted
   \<and> status (step exampleEnv (step exampleEnv (deliver (start exampleWorld) (AuditMsg auditReport))
         (EvDone 0)) (EvDone 0)) = Quitted"
proof -
  note E = exit_codes[of exampleEnv exampleWorld "[]" "start exampleWorld" "''exit status 1''" auditReport]
  have r: "status (start exampleWorld) = Running" by (simp add: start_def)
  have p: "length (pending (start exampleWorld)) = 0" by (simp add: start_def)
  have a: "main (initialModel, None) = \<lparr>exitCode = 0, toStdout = [], toStderr = []\<rparr>"
    by (rule E[THEN conjunct1, THEN spec])
  note Q = E[THEN conjunct2, THEN conjunct2, THEN conjunct2, THEN conjunct2, THEN conjunct2,
             THEN conjunct2, THEN mp, OF r, unfolded p]
  have b: "status (step exampleEnv (deliver (start exampleWorld) (KeyMsg KeyEsc)) (EvDone 0)) = Quitted"
    by (rule Q[THEN conjunct1, THEN spec, THEN mp]) simp
  have c: "status (step exampleEnv (deliver (start exampleWorld) (ErrorMsg ''exit status 1'')) (EvDone 0))
       = Quitted"
    by (rule Q[THEN conjunct2, THEN conjunct1])
  have d: "status (step exampleEnv (step exampleEnv (deliver (start exampleWorld) (AuditMsg auditReport))
         (EvDone 0)) (EvDone 0)) = Quitted"
    by (rule Q[THEN conjunct2, THEN conjunct2])
  from a b c d show ?thesis by (intro conjI)
qed

subsection \<open>Install sequencer\<close>























subsection \<open>Invariants of the dependency list\<close>













lemma late_no_setup:
  assumes "list_all (cmdOk m) P" "view m \<noteq> Page1View"
  shows "\<not> list_ex isSetup P"
proof -
  have "\<And>x. x \<in> set P \<Longrightarrow> \<not> isSetup x"
  proof -
    fix x assume x: "x \<in> set P"
    with assms(1) have "cmdOk m x" by (simp add: list_all_iff)
    with assms(2) show "\<not> isSetup x" by (cases x) simp_all
  qed
  then show ?thesis by (simp add: list_ex_iff)
qed

subsection \<open>The model after each message\<close>






subsection \<open>What each command can answer\<close>








subsection \<open>The invariant after each message\<close>













subsection \<open>The invariant along a run\<close>






lemma wizardInv_fields [simp]:
  "wizardInv (c\<lparr>status := s\<rparr>) = wizardInv c"
  "wizardInv (c\<lparr>world := w\<rparr>) = wizardInv c"
  by (simp_all add: wizardInv_def)














subsection \<open>Concrete runs\<close>

lemma resolve_files [simp]: "resolve (w\<lparr>files := f\<rparr>) p = resolve w p"
  by (simp add: resolve_def)



















subsection \<open>The last element of a joined path\<close>

















subsection \<open>What a write changes\<close>



lemma write_cwd: "os_WriteFile w p c = (r, w') \<Longrightarrow> cwd w' = cwd w"
  by (auto simp: os_WriteFile_def Let_def split: if_splits)



lemma copy_cwd: "copyStaticFile w m c f = (r, w') \<Longrightarrow> cwd w' = cwd w"
  unfolding copyStaticFile_def by (rule write_cwd)











subsection \<open>The expansion and the file \<open>esbuild.js\<close>\<close>

lemma extraLoop_selected:
  assumes "selected dep"
    and "(if name dep = ''typescript''
          then copyStaticFile w m (IndexTs env) ''src/index.ts'' else (None, w)) = (e1, w1)"
    and "(if name dep = ''esbuild''
          then copyStaticFile w1 m (EsbuildJs env) ''esbuild.js'' else (None, w1)) = (e2, w2)"
    and "(if name dep = ''tailwindcss''
          then copyStaticFile w2 m (TailwindConfigJs env) ''tailwind.config.js''
          else (None, w2)) = (e3, w3)"
  shows "extraLoop env m w (dep # rest) acc =
     (case e1 of Some e \<Rightarrow> (Inl e, w1) | None \<Rightarrow>
     (case e2 of Some e \<Rightarrow> (Inl e, w2) | None \<Rightarrow>
     (case e3 of Some e \<Rightarrow> (Inl e, w3) | None \<Rightarrow>
        extraLoop env m w3 rest
          (if name dep = ''kysely''
           then (if name dep = ''react'' then acc @ reactExtras else acc)
                @ [implied ''@types/node'']
           else (if name dep = ''react'' then acc @ reactExtras else acc)))))"
  using assms by (auto simp: Let_def split: option.splits if_splits)

lemma extraLoop_cwd: "cwd (snd (extraLoop env m w ds acc)) = cwd w"
proof (induction ds arbitrary: w acc)
  case Nil
  show ?case by simp
next
  case (Cons dep rest)
  show ?case
  proof (cases "selected dep")
    case False
    then show ?thesis using Cons by simp
  next
    case True
    obtain e1 w1 where r1: "(if name dep = ''typescript''
            then copyStaticFile w m (IndexTs env) ''src/index.ts'' else (None, w)) = (e1, w1)"
      by (metis surj_pair)
    have k1: "cwd w1 = cwd w" using r1 copy_cwd by (auto split: if_splits)
    obtain e2 w2 where r2: "(if name dep = ''esbuild''
            then copyStaticFile w1 m (EsbuildJs env) ''esbuild.js'' else (None, w1)) = (e2, w2)"
      by (metis surj_pair)
    have k2: "cwd w2 = cwd w" using r2 copy_cwd k1 by (auto split: if_splits)
    obtain e3 w3 where r3: "(if name dep = ''tailwindcss''
            then copyStaticFile w2 m (TailwindConfigJs env) ''tailwind.config.js''
            else (None, w2)) = (e3, w3)"
      by (metis surj_pair)
    have k3: "cwd w3 = cwd w" using r3 copy_cwd k2 by (auto split: if_splits)
    show ?thesis
      unfolding extraLoop_selected[OF True r1 r2 r3]
      using k1 k2 k3 Cons[of w3] by (simp split: option.splits)
  qed
qed











end
